theory Spec2Isabelle
  imports Main
begin

section \<open>JavaScript values\<close>

text \<open>
  The four components exchange parsed JSON with the backend and never validate its shape,
  so the data is modelled as untyped JavaScript values. A string is a list of characters
  (code units below 256). Numbers are the integers: the code only tests a number from the
  backend for truthiness and strict equality, and the only numbers it makes are counts.
\<close>

datatype jsval =
    JUndefined
  | JNull
  | JBool bool
  | JNum int
  | JStr string
  | JArr "jsval list"
  | JObj "(string \<times> jsval) list"

text \<open>
  What a \<^verbatim>\<open>catch\<close> clause can receive: the \<^verbatim>\<open>TypeError\<close> of a property read on
  \<^verbatim>\<open>null\<close> or \<^verbatim>\<open>undefined\<close> (or of calling a method that is not there), or an error object
  whose \<^verbatim>\<open>response\<close> property is the given value (\<open>JUndefined\<close> when the request got
  no response at all).
\<close>

datatype exn = TypeError | HttpError jsval

text \<open>The outcome of an awaited request: the rejection, or \<^verbatim>\<open>response.data\<close>.\<close>

type_synonym response = "exn + jsval"

fun nullish :: "jsval \<Rightarrow> bool" where
  "nullish JUndefined = True"
| "nullish JNull = True"
| "nullish _ = False"

text \<open>
  \<open>read_prop v k\<close> is \<^verbatim>\<open>v.k\<close> for a value that is neither \<^verbatim>\<open>null\<close> nor \<^verbatim>\<open>undefined\<close>,
  for the property names this code reads from backend data (\<^verbatim>\<open>id\<close>, \<^verbatim>\<open>list_id\<close>,
  \<^verbatim>\<open>title\<close>, \<^verbatim>\<open>description\<close>, \<^verbatim>\<open>priority\<close>, \<^verbatim>\<open>token\<close>, \<^verbatim>\<open>user\<close>, \<^verbatim>\<open>data\<close>,
  \<^verbatim>\<open>detail\<close>): none of them exists on a primitive or on an array.
\<close>

fun read_prop :: "jsval \<Rightarrow> string \<Rightarrow> jsval" where
  "read_prop (JObj kvs) k = (case map_of kvs k of None \<Rightarrow> JUndefined | Some v \<Rightarrow> v)"
| "read_prop _ k = JUndefined"

text \<open>\<^verbatim>\<open>v.k\<close>: throws on \<^verbatim>\<open>null\<close> and \<^verbatim>\<open>undefined\<close>.\<close>

definition get_prop :: "jsval \<Rightarrow> string \<Rightarrow> exn + jsval" where
  "get_prop v k = (if nullish v then Inl TypeError else Inr (read_prop v k))"

text \<open>\<^verbatim>\<open>v?.k\<close>\<close>

definition opt_prop :: "jsval \<Rightarrow> string \<Rightarrow> jsval" where
  "opt_prop v k = (if nullish v then JUndefined else read_prop v k)"

fun truthy :: "jsval \<Rightarrow> bool" where
  "truthy JUndefined = False"
| "truthy JNull = False"
| "truthy (JBool b) = b"
| "truthy (JNum n) = (n \<noteq> 0)"
| "truthy (JStr s) = (s \<noteq> [])"
| "truthy (JArr xs) = True"
| "truthy (JObj kvs) = True"

text \<open>\<^verbatim>\<open>a || b\<close>\<close>

definition js_or :: "jsval \<Rightarrow> jsval \<Rightarrow> jsval" where
  "js_or a b = (if truthy a then a else b)"

text \<open>
  \<^verbatim>\<open>a === b\<close> for two values that come from different responses (or from a response and
  from component state): primitives are compared by value, while two arrays or two objects
  are never the same reference.
\<close>

fun strict_eq :: "jsval \<Rightarrow> jsval \<Rightarrow> bool" where
  "strict_eq JUndefined JUndefined = True"
| "strict_eq JNull JNull = True"
| "strict_eq (JBool a) (JBool b) = (a = b)"
| "strict_eq (JNum a) (JNum b) = (a = b)"
| "strict_eq (JStr a) (JStr b) = (a = b)"
| "strict_eq _ _ = False"

text \<open>\<^verbatim>\<open>Array.isArray(d) ? d : []\<close>\<close>

fun array_or_empty :: "jsval \<Rightarrow> jsval list" where
  "array_or_empty (JArr xs) = xs"
| "array_or_empty _ = []"

text \<open>
  \<^verbatim>\<open>xs.filter(p)\<close> where the callback may throw: the first throw ends the call.
\<close>

fun js_filter :: "(jsval \<Rightarrow> exn + bool) \<Rightarrow> jsval list \<Rightarrow> exn + jsval list" where
  "js_filter p [] = Inr []"
| "js_filter p (x # xs) =
     (case p x of
        Inl e \<Rightarrow> Inl e
      | Inr b \<Rightarrow>
          (case js_filter p xs of
             Inl e \<Rightarrow> Inl e
           | Inr ys \<Rightarrow> Inr (if b then x # ys else ys)))"

text \<open>\<^verbatim>\<open>v.length\<close>\<close>

fun js_length :: "jsval \<Rightarrow> exn + jsval" where
  "js_length JUndefined = Inl TypeError"
| "js_length JNull = Inl TypeError"
| "js_length (JArr xs) = Inr (JNum (int (length xs)))"
| "js_length (JStr s) = Inr (JNum (int (length s)))"
| "js_length v = Inr (read_prop v ''length'')"

text \<open>
  \<^verbatim>\<open>s.trim()\<close>: the white space and line terminators among the code units below 256
  are tab, line feed, vertical tab, form feed, carriage return, space and no-break space.
\<close>

definition js_whitespace :: "char \<Rightarrow> bool" where
  "js_whitespace c = ((of_char c :: nat) \<in> {9, 10, 11, 12, 13, 32, 160})"

definition trim :: "string \<Rightarrow> string" where
  "trim s = rev (dropWhile js_whitespace (rev (dropWhile js_whitespace s)))"

text \<open>The decimal digits of a number inside a template literal.\<close>

fun show_nat :: "nat \<Rightarrow> string" where
  "show_nat n =
     (if n < 10 then [''0123456789'' ! n]
      else show_nat (n div 10) @ [''0123456789'' ! (n mod 10)])"

declare show_nat.simps [simp del]

section \<open>Requests and observable events\<close>

record formData =
  email :: string
  password :: string
  name :: string

record newBoardData =
  board_title :: string
  board_description :: string

text \<open>The body of \<^verbatim>\<open>POST /api/boards/{boardId}/lists\<close>.\<close>

record list_body =
  lb_title :: string
  lb_board_id :: jsval
  lb_position :: jsval

text \<open>
  The body of \<^verbatim>\<open>POST /api/lists/{listId}/cards\<close>. A key the object literal does not
  have is \<open>JUndefined\<close>.
\<close>

record card_body =
  title :: jsval
  description :: jsval
  list_id :: jsval
  board_id :: jsval
  position :: nat
  priority :: jsval

text \<open>
  A request is its method, its path and its body; a value interpolated into the path is
  kept as the value.
\<close>

datatype request =
    Post_login formData
  | Post_register formData
  | Get_boards
  | Post_board newBoardData
  | Get_board jsval
  | Get_lists jsval
  | Get_cards jsval
  | Post_list jsval list_body
  | Post_card jsval card_body
  | Delete_card jsval
  | Get_inbox

text \<open>
  Request headers: none, or \<^verbatim>\<open>Authorization: Bearer ${token}\<close> with the token read from
  local storage (\<open>None\<close> when the key is not there).
\<close>

datatype headers = No_headers | Bearer "string option"

datatype event =
    Request headers request
  | Toast_error jsval
  | Toast_success jsval
  | Log_error string exn
  | Log_value string jsval
  | Confirm string
  | OnLogin jsval jsval
  | Prevent_default

section \<open>InboxView (\<^verbatim>\<open>frontend/src/pages/Inbox.js\<close>)\<close>

record inbox_state =
  inbox_cards :: "jsval list"
  inbox_boards :: "jsval list"
  inbox_loading :: bool
  showAIConverter :: bool
  inputText :: string
  extractedTasks :: "jsval list"
  selectedBoard :: jsval
  extracting :: bool

text \<open>
  \<^verbatim>\<open>fetchData\<close> issues both requests at once and then waits for \<^verbatim>\<open>Promise.all\<close>. The
  model has the two halves: the requests, and what happens once both outcomes are known.
  \<^verbatim>\<open>Promise.all\<close> rejects with the rejection that comes first in time, so when both
  requests fail the caught error depends on which of them settled first: \<open>boardsFirst\<close>
  says that the boards request did.
\<close>

definition fetchData_requests :: "string option \<Rightarrow> event list" where
  "fetchData_requests token =
     [Request (Bearer token) Get_inbox, Request (Bearer token) Get_boards]"

definition fetchData_failed :: "inbox_state \<Rightarrow> exn \<Rightarrow> inbox_state \<times> event list" where
  "fetchData_failed s e =
     (s\<lparr>inbox_cards := [], inbox_loading := False\<rparr>,
      [Log_error ''Inbox fetch error:'' e, Toast_error (JStr ''Failed to load inbox'')])"

fun fetchData_settled ::
  "inbox_state \<Rightarrow> response \<Rightarrow> response \<Rightarrow> bool \<Rightarrow> inbox_state \<times> event list" where
  "fetchData_settled s (Inr cardsData) (Inr boardsData) boardsFirst =
     (s\<lparr>inbox_cards := array_or_empty cardsData,
        inbox_boards := array_or_empty boardsData,
        inbox_loading := False\<rparr>, [])"
| "fetchData_settled s (Inl e) (Inr boardsData) boardsFirst = fetchData_failed s e"
| "fetchData_settled s (Inr cardsData) (Inl e) boardsFirst = fetchData_failed s e"
| "fetchData_settled s (Inl e) (Inl e') boardsFirst =
     fetchData_failed s (if boardsFirst then e' else e)"

definition fetchData ::
  "inbox_state \<Rightarrow> string option \<Rightarrow> response \<Rightarrow> response \<Rightarrow> bool \<Rightarrow>
     inbox_state \<times> event list" where
  "fetchData s token cardsRes boardsRes boardsFirst =
     (let (s', evs) = fetchData_settled s cardsRes boardsRes boardsFirst
      in (s', fetchData_requests token @ evs))"

text \<open>
  The callback of the filter that counts the cards of the first list:
  \<^verbatim>\<open>(c) => c.list_id === firstList.id\<close>.
\<close>

definition in_first_list :: "jsval \<Rightarrow> jsval \<Rightarrow> exn + bool" where
  "in_first_list firstList c =
     (case get_prop c ''list_id'' of
        Inl e \<Rightarrow> Inl e
      | Inr l \<Rightarrow>
          (case get_prop firstList ''id'' of
             Inl e \<Rightarrow> Inl e
           | Inr i \<Rightarrow> Inr (strict_eq l i)))"

text \<open>
  The object literal posted for one task. Its properties are evaluated in order, so
  \<^verbatim>\<open>task.title\<close> throws before \<^verbatim>\<open>position++\<close> is reached. The caller has checked that
  \<^verbatim>\<open>firstList.id\<close> and \<^verbatim>\<open>selectedBoard\<close> are truthy, so reading their properties cannot
  throw.
\<close>

definition task_card :: "jsval \<Rightarrow> jsval \<Rightarrow> nat \<Rightarrow> jsval \<Rightarrow> exn + card_body" where
  "task_card firstList board pos task =
     (if nullish task then Inl TypeError
      else Inr \<lparr>title = js_or (read_prop task ''title'') (JStr ''Untitled Task''),
                description = js_or (read_prop task ''description'') (JStr ''''),
                list_id = read_prop firstList ''id'',
                board_id = js_or (read_prop board ''id'') board,
                position = pos,
                priority = js_or (read_prop task ''priority'') (JStr ''medium'')\<rparr>)"

text \<open>\<^verbatim>\<open>err.response?.data\<close> and \<^verbatim>\<open>error.response?.data?.detail\<close>\<close>

fun exn_response :: "exn \<Rightarrow> jsval" where
  "exn_response TypeError = JUndefined"
| "exn_response (HttpError r) = r"

definition response_data :: "exn \<Rightarrow> jsval" where
  "response_data e = opt_prop (exn_response e) ''data''"

definition response_detail :: "exn \<Rightarrow> jsval" where
  "response_detail e = opt_prop (response_data e) ''detail''"

text \<open>
  The loop over the extracted tasks. \<open>posts\<close> gives the outcomes of the card-creation
  calls still to come, in the order in which they are issued. The console message is
  written without the cross mark that starts it in the source.
\<close>

fun post_tasks ::
  "string option \<Rightarrow> jsval \<Rightarrow> jsval \<Rightarrow> (nat \<Rightarrow> response) \<Rightarrow> nat \<Rightarrow> jsval list \<Rightarrow> event list" where
  "post_tasks token firstList board posts pos [] = []"
| "post_tasks token firstList board posts pos (task # tasks) =
     (if \<not> truthy (opt_prop firstList ''id'') \<or> \<not> truthy board
      then post_tasks token firstList board posts pos tasks
      else
        (case task_card firstList board pos task of
           Inl err \<Rightarrow>
             Log_value ''Failed to add task:'' (response_data err)
               # post_tasks token firstList board posts pos tasks
         | Inr body \<Rightarrow>
             Request (Bearer token) (Post_card (read_prop firstList ''id'') body)
               # (case posts 0 of
                    Inl err \<Rightarrow> [Log_value ''Failed to add task:'' (response_data err)]
                  | Inr _ \<Rightarrow> [])
               @ post_tasks token firstList board (\<lambda>k. posts (Suc k)) (Suc pos) tasks))"

definition addTasksToBoard_failed :: "inbox_state \<Rightarrow> exn \<Rightarrow> inbox_state \<times> event list" where
  "addTasksToBoard_failed s error =
     (s, [Log_error ''Card creation error:'' error, Toast_error (JStr ''Failed to add tasks'')])"

text \<open>
  \<^verbatim>\<open>addTasksToBoard\<close>, given the outcome of every request it may make: the lists of the
  board, the cards of the board, the card-creation calls, and the two requests of the
  final \<^verbatim>\<open>fetchData()\<close> with the order in which they settle.
\<close>

definition addTasksToBoard ::
  "inbox_state \<Rightarrow> string option \<Rightarrow> response \<Rightarrow> response \<Rightarrow> (nat \<Rightarrow> response) \<Rightarrow>
     response \<Rightarrow> response \<Rightarrow> bool \<Rightarrow> inbox_state \<times> event list" where
  "addTasksToBoard s token listsRes cardsRes posts inboxRes boardsRes boardsFirst =
     (if \<not> truthy (selectedBoard s) then (s, [Toast_error (JStr ''Please select a board'')])
      else
        (case listsRes of
           Inl error \<Rightarrow>
             (let (s', evs) = addTasksToBoard_failed s error
              in (s', Request (Bearer token) (Get_lists (selectedBoard s)) # evs))
         | Inr listsData \<Rightarrow>
             (case array_or_empty listsData of
                [] \<Rightarrow>
                  (s, [Request (Bearer token) (Get_lists (selectedBoard s)),
                       Toast_error (JStr ''This board has no lists. Create a list first.'')])
              | firstList # _ \<Rightarrow>
                  (let reqs = [Request (Bearer token) (Get_lists (selectedBoard s)),
                               Request (Bearer token) (Get_cards (selectedBoard s))]
                   in case cardsRes of
                        Inl error \<Rightarrow>
                          (let (s', evs) = addTasksToBoard_failed s error in (s', reqs @ evs))
                      | Inr cardsData \<Rightarrow>
                          (case js_filter (in_first_list firstList) (array_or_empty cardsData) of
                             Inl error \<Rightarrow>
                               (let (s', evs) = addTasksToBoard_failed s error
                                in (s', reqs @ evs))
                           | Inr firstCards \<Rightarrow>
                               (let evs = reqs
                                      @ post_tasks token firstList (selectedBoard s) posts
                                          (length firstCards) (extractedTasks s)
                                      @ [Toast_success
                                           (JStr (show_nat (length (extractedTasks s))
                                                    @ '' task(s) added to board!''))];
                                    s1 = s\<lparr>showAIConverter := False,
                                           inputText := '''',
                                           extractedTasks := [],
                                           selectedBoard := JStr ''''\<rparr>;
                                    (s2, evs2) =
                                      fetchData s1 token inboxRes boardsRes boardsFirst
                                in (s2, evs @ evs2)))))))"

section \<open>SessionGate (\<^verbatim>\<open>Login\<close>)\<close>

record login_state =
  isLogin :: bool
  login_formData :: formData
  login_loading :: bool

definition handleSubmit_failed :: "login_state \<Rightarrow> exn \<Rightarrow> login_state \<times> event list" where
  "handleSubmit_failed s error =
     (s\<lparr>login_loading := False\<rparr>,
      [Log_error ''Login error:'' error,
       Toast_error (js_or (response_detail error) (JStr ''An error occurred''))])"

text \<open>
  \<^verbatim>\<open>handleSubmit\<close>, given the outcome of the request and what the parent's \<^verbatim>\<open>onLogin\<close>
  does when it is called: it returns (\<open>None\<close>) or throws.
\<close>

definition handleSubmit ::
  "login_state \<Rightarrow> exn option \<Rightarrow> response \<Rightarrow> login_state \<times> event list" where
  "handleSubmit s onLogin_throws res =
     (let req = Request No_headers
                  (if isLogin s then Post_login (login_formData s)
                   else Post_register (login_formData s));
          s1 = s\<lparr>login_loading := True\<rparr>;
          (s2, evs) =
            (case res of
               Inl error \<Rightarrow> handleSubmit_failed s1 error
             | Inr data \<Rightarrow>
                 (case get_prop data ''token'' of
                    Inl error \<Rightarrow> handleSubmit_failed s1 error
                  | Inr token \<Rightarrow>
                      (let called = OnLogin token (read_prop data ''user'')
                       in case onLogin_throws of
                            Some error \<Rightarrow>
                              (let (s', evs') = handleSubmit_failed s1 error
                               in (s', called # evs'))
                          | None \<Rightarrow>
                              (s1\<lparr>login_loading := False\<rparr>,
                               [called,
                                Toast_success
                                  (JStr (if isLogin s then ''Welcome back!''
                                         else ''Account created successfully!''))]))))
      in (s2, Prevent_default # req # evs))"

section \<open>BoardList (\<^verbatim>\<open>Dashboard\<close>)\<close>

record dashboard_state =
  dash_boards :: jsval
  dash_loading :: bool
  showNewBoard :: bool
  newBoardData :: newBoardData

definition fetchBoards_settled :: "dashboard_state \<Rightarrow> response \<Rightarrow> dashboard_state \<times> event list" where
  "fetchBoards_settled s res =
     (case res of
        Inr data \<Rightarrow> (s\<lparr>dash_boards := data, dash_loading := False\<rparr>, [])
      | Inl error \<Rightarrow>
          (s\<lparr>dash_loading := False\<rparr>, [Toast_error (JStr ''Failed to load boards'')]))"

text \<open>
  \<^verbatim>\<open>createBoard\<close>, given the outcome of the creation request and of the request of the
  \<^verbatim>\<open>fetchBoards()\<close> that follows a success.
\<close>

definition createBoard ::
  "dashboard_state \<Rightarrow> string option \<Rightarrow> response \<Rightarrow> response \<Rightarrow> dashboard_state \<times> event list" where
  "createBoard s token postRes boardsRes =
     (if trim (board_title (newBoardData s)) = []
      then (s, [Toast_error (JStr ''Board title is required'')])
      else
        (let req = Request (Bearer token) (Post_board (newBoardData s))
         in case postRes of
              Inl error \<Rightarrow> (s, [req, Toast_error (JStr ''Failed to create board'')])
            | Inr _ \<Rightarrow>
                (let s1 = s\<lparr>showNewBoard := False,
                            newBoardData := \<lparr>board_title = '''', board_description = ''''\<rparr>\<rparr>;
                     (s2, evs) = fetchBoards_settled s1 boardsRes
                 in (s2, [req, Toast_success (JStr ''Board created successfully!''),
                          Request (Bearer token) Get_boards] @ evs))))"

section \<open>BoardDetail (\<^verbatim>\<open>frontend/src/pages/BoardView.js\<close>)\<close>

record newCardData =
  card_title :: string
  listId :: jsval

record boardview_state =
  board :: jsval
  lists :: jsval
  cards :: jsval
  loading :: bool
  newListTitle :: string
  selectedCard :: jsval
  showCardDialog :: bool
  newCardData :: newCardData
  showNewCardDialog :: bool

text \<open>
  \<^verbatim>\<open>fetchBoardData\<close>: three requests at once, then \<^verbatim>\<open>Promise.all\<close>. The \<^verbatim>\<open>catch\<close> does
  not look at the error.
\<close>

definition fetchBoardData_requests :: "jsval \<Rightarrow> string option \<Rightarrow> event list" where
  "fetchBoardData_requests boardId token =
     [Request (Bearer token) (Get_board boardId),
      Request (Bearer token) (Get_lists boardId),
      Request (Bearer token) (Get_cards boardId)]"

definition fetchBoardData_settled ::
  "boardview_state \<Rightarrow> response \<Rightarrow> response \<Rightarrow> response \<Rightarrow> boardview_state \<times> event list" where
  "fetchBoardData_settled s boardRes listsRes cardsRes =
     (case (boardRes, listsRes, cardsRes) of
        (Inr b, Inr l, Inr c) \<Rightarrow> (s\<lparr>board := b, lists := l, cards := c, loading := False\<rparr>, [])
      | _ \<Rightarrow> (s\<lparr>loading := False\<rparr>, [Toast_error (JStr ''Failed to load board data'')]))"

definition fetchBoardData ::
  "boardview_state \<Rightarrow> jsval \<Rightarrow> string option \<Rightarrow> response \<Rightarrow> response \<Rightarrow> response \<Rightarrow>
     boardview_state \<times> event list" where
  "fetchBoardData s boardId token boardRes listsRes cardsRes =
     (let (s', evs) = fetchBoardData_settled s boardRes listsRes cardsRes
      in (s', fetchBoardData_requests boardId token @ evs))"

text \<open>
  \<^verbatim>\<open>createList\<close>. The re-fetch is not awaited: its requests go out before the success
  notification, its result arrives after.
\<close>

definition createList ::
  "boardview_state \<Rightarrow> jsval \<Rightarrow> string option \<Rightarrow> response \<Rightarrow> response \<Rightarrow> response \<Rightarrow> response \<Rightarrow>
     boardview_state \<times> event list" where
  "createList s boardId token postRes boardRes listsRes cardsRes =
     (if trim (newListTitle s) = [] then (s, [])
      else
        (case js_length (lists s) of
           Inl error \<Rightarrow> (s, [Toast_error (JStr ''Failed to create list'')])
         | Inr n \<Rightarrow>
             (let req = Request (Bearer token)
                          (Post_list boardId
                             \<lparr>lb_title = newListTitle s, lb_board_id = boardId, lb_position = n\<rparr>)
              in case postRes of
                   Inl error \<Rightarrow> (s, [req, Toast_error (JStr ''Failed to create list'')])
                 | Inr _ \<Rightarrow>
                     (let s1 = s\<lparr>newListTitle := ''''\<rparr>;
                          (s2, evs) = fetchBoardData_settled s1 boardRes listsRes cardsRes
                      in (s2, req # fetchBoardData_requests boardId token
                                @ [Toast_success (JStr ''List created!'')] @ evs)))))"

text \<open>\<^verbatim>\<open>cards.filter((c) => c.list_id === newCardData.listId)\<close>\<close>

definition listCards :: "jsval \<Rightarrow> jsval \<Rightarrow> exn + jsval list" where
  "listCards cs lid =
     (case cs of
        JArr xs \<Rightarrow>
          js_filter
            (\<lambda>c. case get_prop c ''list_id'' of
                    Inl e \<Rightarrow> Inl e
                  | Inr l \<Rightarrow> Inr (strict_eq l lid)) xs
      | _ \<Rightarrow> Inl TypeError)"

text \<open>\<^verbatim>\<open>handleCreateCard\<close>. Here the re-fetch is awaited.\<close>

definition handleCreateCard ::
  "boardview_state \<Rightarrow> jsval \<Rightarrow> string option \<Rightarrow> response \<Rightarrow> response \<Rightarrow> response \<Rightarrow> response \<Rightarrow>
     boardview_state \<times> event list" where
  "handleCreateCard s boardId token postRes boardRes listsRes cardsRes =
     (if trim (card_title (newCardData s)) = []
      then (s, [Toast_error (JStr ''Card title is required'')])
      else
        (case listCards (cards s) (listId (newCardData s)) of
           Inl error \<Rightarrow> (s, [Toast_error (JStr ''Failed to create card'')])
         | Inr cs \<Rightarrow>
             (let req = Request (Bearer token)
                          (Post_card (listId (newCardData s))
                             \<lparr>title = JStr (card_title (newCardData s)),
                              description = JStr '''',
                              list_id = listId (newCardData s),
                              board_id = boardId,
                              position = length cs,
                              priority = JUndefined\<rparr>)
              in case postRes of
                   Inl error \<Rightarrow> (s, [req, Toast_error (JStr ''Failed to create card'')])
                 | Inr _ \<Rightarrow>
                     (let (s1, evs) = fetchBoardData s boardId token boardRes listsRes cardsRes;
                          s2 = s1\<lparr>showNewCardDialog := False,
                                  newCardData := \<lparr>card_title = '''', listId = JStr ''''\<rparr>\<rparr>
                      in (s2, req # evs @ [Toast_success (JStr ''Card created!'')])))))"

text \<open>
  \<^verbatim>\<open>deleteCard\<close>, given the user's answer to \<^verbatim>\<open>window.confirm\<close> and the outcomes of
  the requests.
\<close>

definition deleteCard ::
  "boardview_state \<Rightarrow> jsval \<Rightarrow> string option \<Rightarrow> jsval \<Rightarrow> bool \<Rightarrow> response \<Rightarrow> response \<Rightarrow> response \<Rightarrow>
     response \<Rightarrow> boardview_state \<times> event list" where
  "deleteCard s boardId token cardId confirmed deleteRes boardRes listsRes cardsRes =
     (if \<not> confirmed then (s, [Confirm ''Delete this card?''])
      else
        (let req = Request (Bearer token) (Delete_card cardId)
         in case deleteRes of
              Inl error \<Rightarrow>
                (s, [Confirm ''Delete this card?'', req,
                     Toast_error (JStr ''Failed to delete card'')])
            | Inr _ \<Rightarrow>
                (let s1 = s\<lparr>showCardDialog := False\<rparr>;
                     (s2, evs) = fetchBoardData_settled s1 boardRes listsRes cardsRes
                 in (s2, Confirm ''Delete this card?'' # req
                           # fetchBoardData_requests boardId token
                           @ [Toast_success (JStr ''Card deleted'')] @ evs))))"

section \<open>Reading a trace\<close>

text \<open>The bodies of the card-creation calls of a trace, in order.\<close>

fun card_posts :: "event list \<Rightarrow> card_body list" where
  "card_posts [] = []"
| "card_posts (Request h (Post_card l b) # evs) = b # card_posts evs"
| "card_posts (_ # evs) = card_posts evs"

text \<open>All requests of a trace, in order.\<close>

fun requests :: "event list \<Rightarrow> request list" where
  "requests [] = []"
| "requests (Request h r # evs) = r # requests evs"
| "requests (_ # evs) = requests evs"

text \<open>The error and success notifications of a trace.\<close>

fun toast_errors :: "event list \<Rightarrow> jsval list" where
  "toast_errors [] = []"
| "toast_errors (Toast_error m # evs) = m # toast_errors evs"
| "toast_errors (_ # evs) = toast_errors evs"

fun toast_successes :: "event list \<Rightarrow> jsval list" where
  "toast_successes [] = []"
| "toast_successes (Toast_success m # evs) = m # toast_successes evs"
| "toast_successes (_ # evs) = toast_successes evs"

text \<open>The calls of \<^verbatim>\<open>onLogin\<close> in a trace, with their arguments.\<close>

fun onLogin_calls :: "event list \<Rightarrow> (jsval \<times> jsval) list" where
  "onLogin_calls [] = []"
| "onLogin_calls (OnLogin t u # evs) = (t, u) # onLogin_calls evs"
| "onLogin_calls (_ # evs) = onLogin_calls evs"

section \<open>The dialog after a commit\<close>

text \<open>
  The four setter calls that follow the loop of \<^verbatim>\<open>addTasksToBoard\<close>, as one update.
\<close>

definition reset_dialog :: "inbox_state \<Rightarrow> inbox_state" where
  "reset_dialog s =
     s\<lparr>showAIConverter := False, inputText := '''', extractedTasks := [],
       selectedBoard := JStr ''''\<rparr>"

section \<open>Example inputs\<close>

text \<open>
  The dialog of the inbox after two tasks were extracted and the board \<^verbatim>\<open>b1\<close> was
  selected. The second task has no title and an empty description.
\<close>

definition task_milk :: jsval where
  "task_milk = JObj [(''title'', JStr ''Buy milk''), (''priority'', JStr ''high'')]"

definition task_untitled :: jsval where
  "task_untitled = JObj [(''description'', JStr '''')]"

definition inbox_ready :: inbox_state where
  "inbox_ready =
     \<lparr>inbox_cards = [], inbox_boards = [JObj [(''id'', JStr ''b1'')]], inbox_loading = False,
      showAIConverter = True, inputText = ''Buy milk. Call Bob tomorrow.'',
      extractedTasks = [task_milk, task_untitled], selectedBoard = JStr ''b1'',
      extracting = False\<rparr>"

text \<open>A list with a usable id, a card in it, and a card in another list.\<close>

definition list_todo :: jsval where
  "list_todo = JObj [(''id'', JStr ''l1''), (''title'', JStr ''To do'')]"

definition card_in_todo :: jsval where
  "card_in_todo = JObj [(''id'', JStr ''c1''), (''list_id'', JStr ''l1'')]"

definition card_elsewhere :: jsval where
  "card_elsewhere = JObj [(''id'', JStr ''c2''), (''list_id'', JStr ''l2'')]"

text \<open>A list whose id is the number zero.\<close>

definition list_zero :: jsval where
  "list_zero = JObj [(''id'', JNum 0), (''title'', JStr ''To do'')]"

text \<open>The first card-creation call is rejected, the others succeed.\<close>

definition first_post_fails :: "nat \<Rightarrow> response" where
  "first_post_fails k = (if k = 0 then Inl (HttpError JUndefined) else Inr JNull)"

definition all_posts_fail :: "nat \<Rightarrow> response" where
  "all_posts_fail k = Inl (HttpError JUndefined)"

definition all_posts_succeed :: "nat \<Rightarrow> response" where
  "all_posts_succeed k = Inr JNull"

text \<open>A task whose title is there, and empty.\<close>

definition task_empty_title :: jsval where
  "task_empty_title = JObj [(''title'', JStr ''''), (''description'', JStr ''Call Bob'')]"

text \<open>A login form, and a successful answer of the backend to it.\<close>

definition login_filled :: login_state where
  "login_filled =
     \<lparr>isLogin = True,
      login_formData = \<lparr>email = ''ann@example.org'', password = ''secret'', name = ''''\<rparr>,
      login_loading = False\<rparr>"

definition login_answer :: jsval where
  "login_answer =
     JObj [(''token'', JStr ''t0k3n''), (''user'', JObj [(''name'', JStr ''Ann'')])]"

text \<open>The new-board dialog with a title of two spaces.\<close>

definition dashboard_blank :: dashboard_state where
  "dashboard_blank =
     \<lparr>dash_boards = JArr [], dash_loading = False, showNewBoard = True,
      newBoardData = \<lparr>board_title = ''  '', board_description = ''notes''\<rparr>\<rparr>"

text \<open>A board view with a tab in the new-list input and a space as new-card title.\<close>

definition boardview_blank :: boardview_state where
  "boardview_blank =
     \<lparr>board = JObj [(''id'', JStr ''b1'')], lists = JArr [list_todo],
      cards = JArr [card_in_todo], loading = False, newListTitle = [CHR 0x09],
      selectedCard = card_in_todo, showCardDialog = True,
      newCardData = \<lparr>card_title = '' '', listId = JStr ''l1''\<rparr>,
      showNewCardDialog = True\<rparr>"

section \<open>Facts about the value model and about traces\<close>

lemmas example_defs =
  inbox_ready_def task_milk_def task_untitled_def task_empty_title_def list_todo_def
  card_in_todo_def card_elsewhere_def list_zero_def

lemma opt_prop_read_prop: "opt_prop v k = read_prop v k"
  by (cases v) (simp_all add: opt_prop_def)

lemma truthy_prop_not_nullish: "truthy (read_prop v k) \<Longrightarrow> \<not> nullish v"
  by (cases v) simp_all

lemma card_posts_append: "card_posts (xs @ ys) = card_posts xs @ card_posts ys"
  by (induction xs rule: card_posts.induct) simp_all

lemma toast_successes_append:
  "toast_successes (xs @ ys) = toast_successes xs @ toast_successes ys"
  by (induction xs rule: toast_successes.induct) simp_all

lemma requests_append: "requests (xs @ ys) = requests xs @ requests ys"
  by (induction xs rule: requests.induct) simp_all

lemma requests_outcome:
  "requests (case r of Inl err \<Rightarrow> [Log_value m (f err)] | Inr x \<Rightarrow> []) = []"
  by (cases r) simp_all

lemma card_posts_outcome:
  "card_posts (case r of Inl err \<Rightarrow> [Log_value m (f err)] | Inr x \<Rightarrow> []) = []"
  by (cases r) simp_all

lemma toast_successes_outcome:
  "toast_successes (case r of Inl err \<Rightarrow> [Log_value m (f err)] | Inr x \<Rightarrow> []) = []"
  by (cases r) simp_all

section \<open>The loop of the bulk commit\<close>

text \<open>
  With a usable list id, a selected board and no \<^verbatim>\<open>null\<close> among the tasks, the loop
  posts one card per task, whatever the outcomes of the posts are: the position counter
  is incremented when the request body is built, before the request can fail.
\<close>

lemma post_tasks_cards:
  assumes "truthy (read_prop firstList ''id'')" and "truthy b"
    and "\<forall>task \<in> set tasks. \<not> nullish task"
  shows "map Inr (card_posts (post_tasks token firstList b posts pos tasks)) =
           map2 (\<lambda>task p. task_card firstList b p task) tasks [pos ..< pos + length tasks]"
  using assms(3)
proof (induction tasks arbitrary: posts pos)
  case Nil
  then show ?case by simp
next
  case (Cons task tasks)
  from Cons.prems have t: "\<not> nullish task" and ts: "\<forall>x \<in> set tasks. \<not> nullish x"
    by simp_all
  show ?case
    using assms(1,2) t Cons.IH [OF ts, of "\<lambda>k. posts (Suc k)" "Suc pos"]
    by (simp add: upt_rec [of pos] opt_prop_read_prop task_card_def card_posts_append
        card_posts_outcome del: upt_Suc)
qed

lemma post_tasks_positions:
  assumes "truthy (read_prop firstList ''id'')" and "truthy b"
    and "\<forall>task \<in> set tasks. \<not> nullish task"
  shows "map position (card_posts (post_tasks token firstList b posts pos tasks)) =
           [pos ..< pos + length tasks]"
  using assms(3)
proof (induction tasks arbitrary: posts pos)
  case Nil
  then show ?case by simp
next
  case (Cons task tasks)
  from Cons.prems have t: "\<not> nullish task" and ts: "\<forall>x \<in> set tasks. \<not> nullish x"
    by simp_all
  show ?case
    using assms(1,2) t Cons.IH [OF ts, of "\<lambda>k. posts (Suc k)" "Suc pos"]
    by (simp add: upt_rec [of pos] opt_prop_read_prop task_card_def card_posts_append
        card_posts_outcome del: upt_Suc)
qed

lemma post_tasks_fields:
  assumes "truthy (read_prop firstList ''id'')" and "truthy b"
    and "\<forall>task \<in> set tasks. \<not> nullish task"
  shows "map title (card_posts (post_tasks token firstList b posts pos tasks)) =
           map (\<lambda>task. js_or (read_prop task ''title'') (JStr ''Untitled Task'')) tasks \<and>
         map description (card_posts (post_tasks token firstList b posts pos tasks)) =
           map (\<lambda>task. js_or (read_prop task ''description'') (JStr [])) tasks \<and>
         map priority (card_posts (post_tasks token firstList b posts pos tasks)) =
           map (\<lambda>task. js_or (read_prop task ''priority'') (JStr ''medium'')) tasks"
  using assms(3)
proof (induction tasks arbitrary: posts pos)
  case Nil
  then show ?case by simp
next
  case (Cons task tasks)
  from Cons.prems have t: "\<not> nullish task" and ts: "\<forall>x \<in> set tasks. \<not> nullish x"
    by simp_all
  show ?case
    using assms(1,2) t Cons.IH [OF ts, of "\<lambda>k. posts (Suc k)" "Suc pos"]
    by (simp add: opt_prop_read_prop task_card_def card_posts_append card_posts_outcome)
qed

text \<open>The loop makes no request but its card-creation calls, all to the first list.\<close>

lemma requests_post_tasks:
  "requests (post_tasks token firstList b posts pos tasks) =
     map (Post_card (read_prop firstList ''id''))
       (card_posts (post_tasks token firstList b posts pos tasks))"
  by (induction tasks arbitrary: posts pos)
     (simp_all add: requests_append requests_outcome card_posts_append card_posts_outcome
        split: sum.splits)

lemma toast_successes_post_tasks:
  "toast_successes (post_tasks token firstList b posts pos tasks) = []"
  by (induction tasks arbitrary: posts pos)
     (simp_all add: toast_successes_append toast_successes_outcome split: sum.splits)

text \<open>Counting the cards of the first list does not throw when nothing is \<^verbatim>\<open>null\<close>.\<close>

lemma js_filter_in_first_list:
  assumes "\<not> nullish firstList" and "\<forall>c \<in> set cs. \<not> nullish c"
  shows "js_filter (in_first_list firstList) cs =
           Inr (filter (\<lambda>c. strict_eq (read_prop c ''list_id'') (read_prop firstList ''id'')) cs)"
  using assms(2)
  by (induction cs) (simp_all add: in_first_list_def get_prop_def assms(1))

text \<open>
  The one path of \<^verbatim>\<open>addTasksToBoard\<close> that reaches the loop: a board is selected, the
  lists request returns a non-empty array, the cards request succeeds and the count of
  the first list's cards is computed.
\<close>

lemma addTasksToBoard_loop:
  assumes "truthy (selectedBoard s)"
    and "listsRes = Inr (JArr (firstList # rest))"
    and "cardsRes = Inr cardsData"
    and "js_filter (in_first_list firstList) (array_or_empty cardsData) = Inr firstCards"
  shows "addTasksToBoard s token listsRes cardsRes posts inboxRes boardsRes boardsFirst =
           (fst (fetchData (reset_dialog s) token inboxRes boardsRes boardsFirst),
            [Request (Bearer token) (Get_lists (selectedBoard s)),
             Request (Bearer token) (Get_cards (selectedBoard s))]
            @ post_tasks token firstList (selectedBoard s) posts (length firstCards)
                (extractedTasks s)
            @ [Toast_success
                 (JStr (show_nat (length (extractedTasks s)) @ '' task(s) added to board!''))]
            @ snd (fetchData (reset_dialog s) token inboxRes boardsRes boardsFirst))"
  using assms
  by (simp add: addTasksToBoard_def reset_dialog_def Let_def split: prod.splits)

lemma card_posts_fetchData: "card_posts (snd (fetchData s token a b f)) = []"
  by (cases "(s, a, b, f)" rule: fetchData_settled.cases)
     (simp_all add: fetchData_def fetchData_requests_def fetchData_failed_def)

lemma toast_successes_fetchData: "toast_successes (snd (fetchData s token a b f)) = []"
  by (cases "(s, a, b, f)" rule: fetchData_settled.cases)
     (simp_all add: fetchData_def fetchData_requests_def fetchData_failed_def)

lemma requests_fetchData:
  "requests (snd (fetchData s token a b f)) = [Get_inbox, Get_boards]"
  by (cases "(s, a, b, f)" rule: fetchData_settled.cases)
     (simp_all add: fetchData_def fetchData_requests_def fetchData_failed_def)

lemma dialog_fetchData:
  "showAIConverter (fst (fetchData s token a b f)) = showAIConverter s \<and>
   inputText (fst (fetchData s token a b f)) = inputText s \<and>
   extractedTasks (fst (fetchData s token a b f)) = extractedTasks s \<and>
   selectedBoard (fst (fetchData s token a b f)) = selectedBoard s"
  by (cases "(s, a, b, f)" rule: fetchData_settled.cases)
     (simp_all add: fetchData_def fetchData_failed_def)

section \<open>The bulk commit of extracted tasks\<close>

text \<open>
  Claim C1, as amended. A commit of \<open>N\<close> extracted tasks to a board that has at least one
  list, when the cards fetched for the board contain \<open>M\<close> cards of the first list
  (\<^verbatim>\<open>c.list_id === firstList.id\<close>), issues exactly \<open>N\<close> card-creation calls with the
  positions \<open>M, M+1, \<dots>, M+N-1\<close>, in the order of the extracted-task array, provided
  that the id of the first list is truthy. The fetched cards and the tasks are objects,
  not \<^verbatim>\<open>null\<close>. The outcomes of the calls are arbitrary.
\<close>

theorem addTasksToBoard_positions:
  assumes "truthy (selectedBoard s)"
    and "listsRes = Inr (JArr (firstList # rest))"
    and "truthy (read_prop firstList ''id'')"
    and "cardsRes = Inr cardsData"
    and "\<forall>c \<in> set (array_or_empty cardsData). \<not> nullish c"
    and "\<forall>task \<in> set (extractedTasks s). \<not> nullish task"
    and "M = length (filter (\<lambda>c. strict_eq (read_prop c ''list_id'') (read_prop firstList ''id''))
                      (array_or_empty cardsData))"
    and "N = length (extractedTasks s)"
    and "tr = snd (addTasksToBoard s token listsRes cardsRes posts inboxRes boardsRes boardsFirst)"
  shows "map position (card_posts tr) = [M ..< M + N] \<and>
         map Inr (card_posts tr) =
           map2 (\<lambda>task p. task_card firstList (selectedBoard s) p task)
             (extractedTasks s) [M ..< M + N]"
proof -
  have fl: "\<not> nullish firstList"
    using assms(3) by (rule truthy_prop_not_nullish)
  note cnt = js_filter_in_first_list [OF fl assms(5)]
  have tr: "card_posts tr =
      card_posts (post_tasks token firstList (selectedBoard s) posts M (extractedTasks s))"
    unfolding assms(9) addTasksToBoard_loop [OF assms(1,2,4) cnt]
    by (simp add: card_posts_append card_posts_fetchData assms(7))
  have bodies: "map Inr (card_posts tr) =
      map2 (\<lambda>task p. task_card firstList (selectedBoard s) p task)
        (extractedTasks s) [M ..< M + N]"
    unfolding tr assms(8) by (rule post_tasks_cards [OF assms(3,1,6)])
  have "map position (card_posts tr) = [M ..< M + N]"
    unfolding tr assms(8) by (rule post_tasks_positions [OF assms(3,1,6)])
  with bodies show ?thesis by simp
qed

text \<open>
  Two tasks, one card already in the first list and one in another list: the positions are
  1 and 2, although the first call is rejected.
\<close>

theorem addTasksToBoard_positions_witness:
  "truthy (selectedBoard inbox_ready) \<and> truthy (read_prop list_todo ''id'') \<and>
   map position
     (card_posts (snd (addTasksToBoard inbox_ready None (Inr (JArr [list_todo]))
        (Inr (JArr [card_elsewhere, card_in_todo])) first_post_fails
        (Inr (JArr [])) (Inr (JArr [])) False))) = [1, 2]"
  using addTasksToBoard_positions [where s = inbox_ready
      and listsRes = "Inr (JArr [list_todo])" and firstList = list_todo and rest = "[]"
      and cardsRes = "Inr (JArr [card_elsewhere, card_in_todo])"
      and cardsData = "JArr [card_elsewhere, card_in_todo]" and M = 1 and N = 2
      and token = None and posts = first_post_fails
      and inboxRes = "Inr (JArr [])" and boardsRes = "Inr (JArr [])"
      and boardsFirst = False,
      OF _ refl _ refl _ _ _ _ refl]
  by (simp add: example_defs upt_rec [of 1] upt_rec [of 2])

text \<open>
  Claim C1 as it is written does not hold: the loop skips every task when
  \<^verbatim>\<open>firstList.id\<close> is falsy. A board whose first list has the id 0 gets no
  card-creation call for the two tasks, where the claim has two calls with the positions
  0 and 1.
\<close>

theorem addTasksToBoard_positions_counterexample:
  "truthy (selectedBoard inbox_ready) \<and> length (extractedTasks inbox_ready) = 2 \<and>
   array_or_empty (JArr [list_zero]) \<noteq> [] \<and>
   card_posts (snd (addTasksToBoard inbox_ready None (Inr (JArr [list_zero]))
        (Inr (JArr [])) all_posts_succeed (Inr (JArr [])) (Inr (JArr [])) False)) = []"
  by (simp add: example_defs addTasksToBoard_def opt_prop_def get_prop_def fetchData_def
      fetchData_requests_def)

text \<open>
  Claim C2. Once the commit has reached its loop, a rejected card-creation call does not
  end it: whatever the outcomes \<open>posts\<close> of the calls are, there is one call per extracted
  task, with the positions in sequence (calls are made at all only when the id of the
  first list is truthy); the dialog state is reset (dialog closed, input text and
  extracted tasks emptied, no board selected); and the inbox is fetched again: after
  the two reads and the card-creation calls, the last two requests of the commit are
  \<^verbatim>\<open>GET /api/inbox\<close> and \<^verbatim>\<open>GET /api/boards\<close>, and the commit ends as \<^verbatim>\<open>fetchData()\<close>
  does on the reset state.
\<close>

theorem addTasksToBoard_continues_after_failure:
  assumes "truthy (selectedBoard s)"
    and "listsRes = Inr (JArr (firstList # rest))"
    and "cardsRes = Inr cardsData"
    and "js_filter (in_first_list firstList) (array_or_empty cardsData) = Inr firstCards"
    and "\<forall>task \<in> set (extractedTasks s). \<not> nullish task"
    and "r = addTasksToBoard s token listsRes cardsRes posts inboxRes boardsRes boardsFirst"
  shows "(truthy (read_prop firstList ''id'') \<longrightarrow>
            length (card_posts (snd r)) = length (extractedTasks s)) \<and>
         showAIConverter (fst r) = False \<and> inputText (fst r) = [] \<and>
         extractedTasks (fst r) = [] \<and> selectedBoard (fst r) = JStr [] \<and>
         (\<exists>evs. snd r =
            evs @ snd (fetchData (reset_dialog s) token inboxRes boardsRes boardsFirst)) \<and>
         fst r = fst (fetchData (reset_dialog s) token inboxRes boardsRes boardsFirst) \<and>
         requests (snd r) =
           [Get_lists (selectedBoard s), Get_cards (selectedBoard s)]
           @ map (Post_card (read_prop firstList ''id'')) (card_posts (snd r))
           @ [Get_inbox, Get_boards] \<and>
         (truthy (read_prop firstList ''id'') \<longrightarrow>
            map position (card_posts (snd r)) =
              [length firstCards ..< length firstCards + length (extractedTasks s)])"
proof -
  note loop = addTasksToBoard_loop
      [OF assms(1-4), of token posts inboxRes boardsRes boardsFirst]
  have positions: "map position (card_posts (snd r)) =
      [length firstCards ..< length firstCards + length (extractedTasks s)]"
    if "truthy (read_prop firstList ''id'')"
    unfolding assms(6) loop
    by (simp add: card_posts_append card_posts_fetchData
        post_tasks_positions [OF that assms(1,5)])
  have posted: "length (card_posts (snd r)) = length (extractedTasks s)"
    if "truthy (read_prop firstList ''id'')"
  proof -
    from positions [OF that]
    have "length (map position (card_posts (snd r))) = length (extractedTasks s)"
      by simp
    then show ?thesis by simp
  qed
  have state: "fst r = fst (fetchData (reset_dialog s) token inboxRes boardsRes boardsFirst)"
    unfolding assms(6) loop by simp
  have trace: "\<exists>evs. snd r =
      evs @ snd (fetchData (reset_dialog s) token inboxRes boardsRes boardsFirst)"
    unfolding assms(6) loop by (metis append.assoc snd_conv)
  have reqs: "requests (snd r) =
      [Get_lists (selectedBoard s), Get_cards (selectedBoard s)]
      @ map (Post_card (read_prop firstList ''id'')) (card_posts (snd r))
      @ [Get_inbox, Get_boards]"
    unfolding assms(6) loop
    by (simp add: requests_append requests_post_tasks requests_fetchData
        card_posts_append card_posts_fetchData)
  show ?thesis
    using posted positions state trace reqs
      dialog_fetchData [of "reset_dialog s" token inboxRes boardsRes boardsFirst]
    by (simp add: reset_dialog_def)
qed

text \<open>
  The first of two calls is rejected and the final inbox request fails as well: both tasks
  are posted, the extracted tasks are cleared, and the commit's six requests end with the
  two of the re-fetch.
\<close>

theorem addTasksToBoard_continues_after_failure_witness:
  "truthy (selectedBoard inbox_ready) \<and> truthy (read_prop list_todo ''id'') \<and>
   first_post_fails 0 = Inl (HttpError JUndefined) \<and>
   length (card_posts (snd (addTasksToBoard inbox_ready None (Inr (JArr [list_todo]))
     (Inr (JArr [])) first_post_fails (Inl TypeError) (Inr (JArr [])) False))) = 2 \<and>
   extractedTasks (fst (addTasksToBoard inbox_ready None (Inr (JArr [list_todo]))
     (Inr (JArr [])) first_post_fails (Inl TypeError) (Inr (JArr [])) False)) = [] \<and>
   length (requests (snd (addTasksToBoard inbox_ready None (Inr (JArr [list_todo]))
     (Inr (JArr [])) first_post_fails (Inl TypeError) (Inr (JArr [])) False))) = 6 \<and>
   drop 4 (requests (snd (addTasksToBoard inbox_ready None (Inr (JArr [list_todo]))
     (Inr (JArr [])) first_post_fails (Inl TypeError) (Inr (JArr [])) False)))
     = [Get_inbox, Get_boards]"
proof -
  let ?r = "addTasksToBoard inbox_ready None (Inr (JArr [list_todo])) (Inr (JArr []))
      first_post_fails (Inl TypeError) (Inr (JArr [])) False"
  have selected: "truthy (selectedBoard inbox_ready)"
    by (simp add: inbox_ready_def)
  have count: "js_filter (in_first_list list_todo) (array_or_empty (JArr [])) = Inr []"
    by simp
  have tasks: "\<forall>task \<in> set (extractedTasks inbox_ready). \<not> nullish task"
    by (simp add: example_defs)
  have id: "truthy (read_prop list_todo ''id'')"
    by (simp add: list_todo_def)
  note commit = addTasksToBoard_continues_after_failure
      [where rest = "[]" and token = None and posts = first_post_fails
        and inboxRes = "Inl TypeError" and boardsRes = "Inr (JArr [])"
      and boardsFirst = False,
        OF selected refl refl count tasks refl]
  from commit id have posted: "length (card_posts (snd ?r)) = length (extractedTasks inbox_ready)"
    by blast
  then have two: "length (card_posts (snd ?r)) = 2"
    by (simp add: inbox_ready_def)
  from commit have cleared: "extractedTasks (fst ?r) = []"
    by blast
  from commit have reqs: "requests (snd ?r) =
      [Get_lists (selectedBoard inbox_ready), Get_cards (selectedBoard inbox_ready)]
      @ map (Post_card (read_prop list_todo ''id'')) (card_posts (snd ?r))
      @ [Get_inbox, Get_boards]"
    by blast
  from two obtain x y where "card_posts (snd ?r) = [x, y]"
    by (auto simp: length_Suc_conv numeral_2_eq_2)
  with reqs have "length (requests (snd ?r)) = 6 \<and>
      drop 4 (requests (snd ?r)) = [Get_inbox, Get_boards]"
    by simp
  with two cleared show ?thesis
    using selected id by (simp add: first_post_fails_def)
qed

text \<open>
  Claim C3. When a board is selected and the lists fetched for it are an empty array (or
  not an array), the commit makes no card-creation call, its only request is the one
  for the lists, it shows exactly one error notification, and the state of the component
  (extracted tasks, input text, dialog flag, inbox cards among it) is unchanged.
\<close>

theorem addTasksToBoard_no_lists:
  assumes "truthy (selectedBoard s)"
    and "listsRes = Inr listsData"
    and "array_or_empty listsData = []"
    and "r = addTasksToBoard s token listsRes cardsRes posts inboxRes boardsRes boardsFirst"
  shows "card_posts (snd r) = [] \<and>
         toast_errors (snd r) = [JStr ''This board has no lists. Create a list first.''] \<and>
         requests (snd r) = [Get_lists (selectedBoard s)] \<and>
         fst r = s"
  using assms by (simp add: addTasksToBoard_def)

theorem addTasksToBoard_no_lists_witness:
  "truthy (selectedBoard inbox_ready) \<and> array_or_empty (JArr []) = [] \<and>
   card_posts (snd (addTasksToBoard inbox_ready None (Inr (JArr [])) (Inr (JArr [card_in_todo]))
     all_posts_succeed (Inr (JArr [])) (Inr (JArr [])) False)) = [] \<and>
   fst (addTasksToBoard inbox_ready None (Inr (JArr [])) (Inr (JArr [card_in_todo]))
     all_posts_succeed (Inr (JArr [])) (Inr (JArr [])) False) = inbox_ready"
  using addTasksToBoard_no_lists [where s = inbox_ready and listsRes = "Inr (JArr [])"
      and listsData = "JArr []" and token = None and cardsRes = "Inr (JArr [card_in_todo])"
      and posts = all_posts_succeed and inboxRes = "Inr (JArr [])"
      and boardsRes = "Inr (JArr [])"
      and boardsFirst = False,
      OF _ refl _ refl]
  by (simp add: inbox_ready_def)


text \<open>
  Claim C9. Whenever the commit reaches its loop, it shows one success notification, and
  that notification gives the length of the extracted-task array, for every outcome
  \<open>posts\<close> of the card-creation calls: the count reported does not depend on how many
  calls succeeded.
\<close>

theorem addTasksToBoard_reported_count:
  assumes "truthy (selectedBoard s)"
    and "listsRes = Inr (JArr (firstList # rest))"
    and "cardsRes = Inr cardsData"
    and "js_filter (in_first_list firstList) (array_or_empty cardsData) = Inr firstCards"
  shows "toast_successes
           (snd (addTasksToBoard s token listsRes cardsRes posts inboxRes boardsRes boardsFirst))
         = [JStr (show_nat (length (extractedTasks s)) @ '' task(s) added to board!'')]"
  unfolding addTasksToBoard_loop [OF assms]
  by (simp add: toast_successes_append toast_successes_post_tasks toast_successes_fetchData)

text \<open>Two tasks: the same message when every call fails and when every call succeeds.\<close>

theorem addTasksToBoard_reported_count_witness:
  "truthy (selectedBoard inbox_ready) \<and>
   js_filter (in_first_list list_todo) (array_or_empty (JArr [])) = Inr [] \<and>
   toast_successes (snd (addTasksToBoard inbox_ready None (Inr (JArr [list_todo]))
     (Inr (JArr [])) all_posts_fail (Inr (JArr [])) (Inr (JArr [])) False))
     = [JStr ''2 task(s) added to board!''] \<and>
   toast_successes (snd (addTasksToBoard inbox_ready None (Inr (JArr [list_todo]))
     (Inr (JArr [])) all_posts_succeed (Inr (JArr [])) (Inr (JArr [])) False))
     = [JStr ''2 task(s) added to board!'']"
  using addTasksToBoard_reported_count [where s = inbox_ready
      and listsRes = "Inr (JArr [list_todo])" and firstList = list_todo and rest = "[]"
      and cardsRes = "Inr (JArr [])" and cardsData = "JArr []" and firstCards = "[]"
      and token = None and inboxRes = "Inr (JArr [])" and boardsRes = "Inr (JArr [])"
      and boardsFirst = False,
      OF _ refl refl]
  by (simp add: inbox_ready_def show_nat.simps)

text \<open>
  Claim C8, as amended. Every card-creation request of the bulk commit carries the task's
  title when that title is truthy and \<^verbatim>\<open>"Untitled Task"\<close> otherwise (the title is absent,
  \<^verbatim>\<open>null\<close>, the empty string, 0 or \<^verbatim>\<open>false\<close>); the task's description when it is truthy
  and the empty string otherwise; the task's priority when it is truthy and
  \<^verbatim>\<open>"medium"\<close> otherwise. The requests are those of the tasks, in order.
\<close>

theorem addTasksToBoard_defaults:
  assumes "truthy (selectedBoard s)"
    and "listsRes = Inr (JArr (firstList # rest))"
    and "truthy (read_prop firstList ''id'')"
    and "cardsRes = Inr cardsData"
    and "js_filter (in_first_list firstList) (array_or_empty cardsData) = Inr firstCards"
    and "\<forall>task \<in> set (extractedTasks s). \<not> nullish task"
    and "tr = snd (addTasksToBoard s token listsRes cardsRes posts inboxRes boardsRes boardsFirst)"
  shows "map title (card_posts tr) =
           map (\<lambda>task. if truthy (read_prop task ''title'') then read_prop task ''title''
                        else JStr ''Untitled Task'') (extractedTasks s) \<and>
         map description (card_posts tr) =
           map (\<lambda>task. if truthy (read_prop task ''description'')
                        then read_prop task ''description'' else JStr [])
             (extractedTasks s) \<and>
         map priority (card_posts tr) =
           map (\<lambda>task. if truthy (read_prop task ''priority'') then read_prop task ''priority''
                        else JStr ''medium'') (extractedTasks s)"
proof -
  have tr: "card_posts tr = card_posts (post_tasks token firstList (selectedBoard s) posts
      (length firstCards) (extractedTasks s))"
    unfolding assms(7) addTasksToBoard_loop [OF assms(1,2,4,5)]
    by (simp add: card_posts_append card_posts_fetchData)
  show ?thesis
    unfolding tr using post_tasks_fields [OF assms(3,1,6), of token posts "length firstCards"]
    by (simp add: js_or_def)
qed

text \<open>
  A task with a title and a priority, and a task with neither and an empty description.
\<close>

theorem addTasksToBoard_defaults_witness:
  "truthy (selectedBoard inbox_ready) \<and> truthy (read_prop list_todo ''id'') \<and>
   map title (card_posts (snd (addTasksToBoard inbox_ready None (Inr (JArr [list_todo]))
     (Inr (JArr [])) first_post_fails (Inr (JArr [])) (Inr (JArr [])) False)))
     = [JStr ''Buy milk'', JStr ''Untitled Task''] \<and>
   map description (card_posts (snd (addTasksToBoard inbox_ready None (Inr (JArr [list_todo]))
     (Inr (JArr [])) first_post_fails (Inr (JArr [])) (Inr (JArr [])) False)))
     = [JStr '''', JStr ''''] \<and>
   map priority (card_posts (snd (addTasksToBoard inbox_ready None (Inr (JArr [list_todo]))
     (Inr (JArr [])) first_post_fails (Inr (JArr [])) (Inr (JArr [])) False)))
     = [JStr ''high'', JStr ''medium'']"
  using addTasksToBoard_defaults [where s = inbox_ready
      and listsRes = "Inr (JArr [list_todo])" and firstList = list_todo and rest = "[]"
      and cardsRes = "Inr (JArr [])" and cardsData = "JArr []" and firstCards = "[]"
      and token = None and posts = first_post_fails
      and inboxRes = "Inr (JArr [])" and boardsRes = "Inr (JArr [])"
      and boardsFirst = False,
      OF _ refl _ refl _ _ refl]
  by (simp add: example_defs)

text \<open>
  Claim C8 as it is written does not hold: a title that is there but falsy is replaced
  as well. The task has the title \<^verbatim>\<open>""\<close>, and the request carries
  \<^verbatim>\<open>"Untitled Task"\<close>.
\<close>

theorem addTasksToBoard_defaults_counterexample:
  "map_of [(''title'', JStr ''''), (''description'', JStr ''Call Bob'')] ''title''
     = Some (JStr '''') \<and>
   read_prop task_empty_title ''title'' = JStr '''' \<and>
   map title (card_posts (snd (addTasksToBoard
     (inbox_ready\<lparr>extractedTasks := [task_empty_title]\<rparr>) None (Inr (JArr [list_todo]))
     (Inr (JArr [])) all_posts_succeed (Inr (JArr [])) (Inr (JArr [])) False)))
     = [JStr ''Untitled Task'']"
  by (simp add: example_defs all_posts_succeed_def addTasksToBoard_def opt_prop_def
      task_card_def js_or_def fetchData_def fetchData_requests_def)

section \<open>Joint fetches\<close>

text \<open>
  Claim C4. When one of the three requests of \<^verbatim>\<open>fetchBoardData\<close> fails, the fetch shows
  the error notification and changes nothing but the loading flag: no response is
  stored. When one of the two requests of the inbox's \<^verbatim>\<open>fetchData\<close> fails, the fetch
  shows the error notification, and the resulting state has no cards and is otherwise
  the old one, loading flag apart: it holds nothing of either response.
\<close>

theorem joint_fetch_failure:
  assumes "isl boardRes \<or> isl listsRes \<or> isl cardsRes"
    and "isl inboxRes \<or> isl boardsRes"
  shows "fetchBoardData b boardId token boardRes listsRes cardsRes =
           (b\<lparr>loading := False\<rparr>,
            fetchBoardData_requests boardId token
              @ [Toast_error (JStr ''Failed to load board data'')]) \<and>
         fst (fetchData s token inboxRes boardsRes boardsFirst) =
           s\<lparr>inbox_cards := [], inbox_loading := False\<rparr> \<and>
         toast_errors (snd (fetchData s token inboxRes boardsRes boardsFirst)) =
           [JStr ''Failed to load inbox'']"
proof -
  have bv: "fetchBoardData_settled b boardRes listsRes cardsRes =
      (b\<lparr>loading := False\<rparr>, [Toast_error (JStr ''Failed to load board data'')])"
    using assms(1) by (auto simp: fetchBoardData_settled_def isl_def split: sum.splits)
  obtain e where "fetchData_settled s inboxRes boardsRes boardsFirst = fetchData_failed s e"
    using assms(2)
    by (cases "(s, inboxRes, boardsRes, boardsFirst)" rule: fetchData_settled.cases) auto
  then show ?thesis
    using bv by (simp add: fetchBoardData_def fetchData_def fetchData_failed_def
        fetchData_requests_def)
qed

text \<open>
  In each component one request fails and another returns a card: the card is not stored.
\<close>

theorem joint_fetch_failure_witness:
  "isl (Inl TypeError :: response) \<and>
   cards (fst (fetchBoardData boardview_blank (JStr ''b1'') None (Inr (JObj []))
          (Inl TypeError) (Inr (JArr [card_elsewhere])))) = JArr [card_in_todo] \<and>
   inbox_cards (fst (fetchData inbox_ready None (Inr (JArr [card_elsewhere]))
          (Inl TypeError) False)) = []"
  using joint_fetch_failure [where boardRes = "Inr (JObj [])" and listsRes = "Inl TypeError"
      and cardsRes = "Inr (JArr [card_elsewhere])" and b = boardview_blank
      and boardId = "JStr ''b1''" and token = None
      and inboxRes = "Inr (JArr [card_elsewhere])" and boardsRes = "Inl TypeError"
      and boardsFirst = False
      and s = inbox_ready]
  by (simp add: boardview_blank_def inbox_ready_def)


section \<open>Blank titles\<close>

text \<open>
  Claim C5. Submitting the new-board dialog with a title that is empty after trimming
  makes no request, shows the error notification, and leaves the whole state of the
  component, the dialog and its form among it, unchanged.
\<close>

theorem createBoard_blank_title:
  assumes "trim (board_title (newBoardData s)) = []"
    and "r = createBoard s token postRes boardsRes"
  shows "requests (snd r) = [] \<and>
         toast_errors (snd r) = [JStr ''Board title is required''] \<and>
         fst r = s"
  using assms by (simp add: createBoard_def)

theorem createBoard_blank_title_witness:
  "trim (board_title (newBoardData dashboard_blank)) = [] \<and>
   requests (snd (createBoard dashboard_blank None (Inr JNull) (Inr (JArr [])))) = [] \<and>
   fst (createBoard dashboard_blank None (Inr JNull) (Inr (JArr []))) = dashboard_blank"
proof -
  have blank: "trim (board_title (newBoardData dashboard_blank)) = []"
    by (simp add: dashboard_blank_def trim_def js_whitespace_def)
  from createBoard_blank_title [OF blank refl, of None "Inr JNull" "Inr (JArr [])"] blank
  show ?thesis by simp
qed

text \<open>
  Claim C10. Creating a list with a title that is empty after trimming does nothing at
  all: no request, no notification, no change of state. Creating a card or a board with
  such a title shows an error notification.
\<close>

theorem createList_blank_title_silent:
  assumes "trim (newListTitle s) = []"
    and "trim (card_title (newCardData c)) = []"
    and "trim (board_title (newBoardData d)) = []"
  shows "createList s boardId token postRes boardRes listsRes cardsRes = (s, []) \<and>
         toast_errors (snd (handleCreateCard c boardId' token' postRes' boardRes' listsRes'
           cardsRes')) = [JStr ''Card title is required''] \<and>
         toast_errors (snd (createBoard d token'' postRes'' boardsRes'')) =
           [JStr ''Board title is required'']"
  using assms by (simp add: createList_def handleCreateCard_def createBoard_def)

theorem createList_blank_title_silent_witness:
  "trim (newListTitle boardview_blank) = [] \<and>
   createList boardview_blank (JStr ''b1'') None (Inr JNull) (Inr JNull) (Inr JNull)
     (Inr JNull) = (boardview_blank, [])"
proof -
  have l: "trim (newListTitle boardview_blank) = []"
    by (simp add: boardview_blank_def trim_def js_whitespace_def)
  have c: "trim (card_title (newCardData boardview_blank)) = []"
    by (simp add: boardview_blank_def trim_def js_whitespace_def)
  have d: "trim (board_title (newBoardData dashboard_blank)) = []"
    by (simp add: dashboard_blank_def trim_def js_whitespace_def)
  from createList_blank_title_silent [OF l c d, where boardId = "JStr ''b1''"
      and token = None and postRes = "Inr JNull" and boardRes = "Inr JNull"
      and listsRes = "Inr JNull" and cardsRes = "Inr JNull"] l
  show ?thesis by simp
qed

section \<open>Deleting a card\<close>

text \<open>
  Claim C6. When the user declines the confirmation prompt, \<^verbatim>\<open>deleteCard\<close> issues no
  request and leaves the state of the component (board, lists, cards, dialogs) as it
  was; the prompt is all that happened.
\<close>

theorem deleteCard_declined:
  "deleteCard s boardId token cardId False deleteRes boardRes listsRes cardsRes =
     (s, [Confirm ''Delete this card?'']) \<and>
   requests (snd (deleteCard s boardId token cardId False deleteRes boardRes listsRes
     cardsRes)) = []"
  by (simp add: deleteCard_def)

theorem deleteCard_declined_witness:
  "fst (deleteCard boardview_blank (JStr ''b1'') None (JStr ''c1'') False (Inr JNull)
     (Inr JNull) (Inr JNull) (Inr JNull)) = boardview_blank"
  using deleteCard_declined [of boardview_blank "JStr ''b1''" None "JStr ''c1''" "Inr JNull"
      "Inr JNull" "Inr JNull" "Inr JNull"]
  by simp

section \<open>Signing in\<close>

text \<open>
  Claim C7. When the backend answers a credential submission with an object that has a
  \<^verbatim>\<open>token\<close> and a \<^verbatim>\<open>user\<close>, the \<^verbatim>\<open>onLogin\<close> callback is called exactly once, with that
  token and that user, in login and in registration mode, and whether the callback
  returns or throws.
\<close>

theorem handleSubmit_onLogin_once:
  assumes "res = Inr (JObj kvs)"
    and "map_of kvs ''token'' = Some token"
    and "map_of kvs ''user'' = Some user"
  shows "onLogin_calls (snd (handleSubmit s onLogin_throws res)) = [(token, user)]"
  using assms
  by (simp add: handleSubmit_def handleSubmit_failed_def get_prop_def Let_def
      split: option.splits prod.splits)

theorem handleSubmit_onLogin_once_witness:
  "map_of [(''token'', JStr ''t0k3n''), (''user'', JObj [(''name'', JStr ''Ann'')])] ''token''
     = Some (JStr ''t0k3n'') \<and>
   onLogin_calls (snd (handleSubmit login_filled None (Inr login_answer))) =
     [(JStr ''t0k3n'', JObj [(''name'', JStr ''Ann'')])]"
  using handleSubmit_onLogin_once [where res = "Inr login_answer"
      and kvs = "[(''token'', JStr ''t0k3n''), (''user'', JObj [(''name'', JStr ''Ann'')])]"
      and token = "JStr ''t0k3n''" and user = "JObj [(''name'', JStr ''Ann'')]"
      and s = login_filled and onLogin_throws = None]
  by (simp add: login_answer_def)

end
